theory Spec2Isabelle
  imports Main "HOL-Library.Word" "HOL-Library.Sublist"
begin

unbundle bit_operations_syntax

section \<open>Values shared by the command-line helpers\<close>

text \<open>
  A Node \<open>Buffer\<close> is a list of bytes.  A JavaScript string is a list of UTF-16 code
  units, so that \<open>length\<close> is the string's \<open>.length\<close>; \<open>js\<close> turns an ASCII literal
  into such a string.
\<close>

type_synonym byte = "8 word"
type_synonym buffer = "byte list"
type_synonym jsstring = "16 word list"

definition js :: "string \<Rightarrow> jsstring" where
  "js s = map (\<lambda>c. of_nat (of_char c)) s"

definition ascii_bytes :: "string \<Rightarrow> buffer" where
  "ascii_bytes s = map (\<lambda>c. of_nat (of_char c)) s"

text \<open>
  Every \<open>throw new Error(...)\<close> of the scripts is one constructor; the message text that
  carries a value keeps the value.
\<close>

datatype entry_error =
    CreatorSpecInvalid
  | CreatorAddressInvalid
  | CreatorShareInvalid
  | CreatorVerifiedInvalid
  | CreatorsJsonNotFound
  | CreatorsJsonUnparsable
  | CreatorsJsonNotArray
  | CreatorEntryWithoutAddress

datatype error =
    InvalidPublicKeyInput
  | CreatorEntry entry_error
  | ManifestDataMissing
  | ManifestDataTooSmall
  | CreatorsNotArray
  | ManifestCreatorNotPublicKey
  | ManifestCreatorMissing
  | ManifestHashMissing
  | ManifestHashNot32Bytes
  | ManifestHashNotHex
  | RangeError
  | NoCreators
  | CreatorSharesTotal int
  | SellerFeeOutOfRange
  | ManifestUriEmpty
  | ManifestUriTooLong
  | MetadataNameEmpty
  | MetadataNameTooLong
  | MetadataSymbolTooLong
  | ComputeUnitLimitInvalid
  | ComputeUnitPriceInvalid
  | TooManyCreators
  | NamespaceMustDiffer
  | KeypairPathMissing
  | KeypairUnreadable
  | DiscriminatorMismatch
  | LegacyDiscriminatorMismatch
  | BothDiscriminatorsFailed
  | UnableToParseBigInt
  | BigIntSyntaxError
  | ConfigBumpMismatch
  | AuthBumpMismatch
  | ManifestBumpMismatch
  | RpcFailure

text \<open>
  A \<open>PublicKey\<close> of the web3 library holds a number of at most 32 bytes; \<open>toBuffer\<close>
  gives it back as 32 big-endian bytes and \<open>equals\<close> compares the numbers.  The
  constructor, given bytes, drops leading zeros, refuses more than 32 significant bytes
  and pads the rest to 32.
\<close>

datatype PublicKey = PublicKey (toBuffer: buffer)

definition PUBLIC_KEY_LENGTH :: nat where
  "PUBLIC_KEY_LENGTH = 32"

definition new_PublicKey :: "buffer \<Rightarrow> error + PublicKey" where
  "new_PublicKey v =
     (let bn = dropWhile (\<lambda>b. b = 0) v
      in if length bn > PUBLIC_KEY_LENGTH then Inl InvalidPublicKeyInput
         else Inr (PublicKey (replicate (PUBLIC_KEY_LENGTH - length bn) 0 @ bn)))"

section \<open>scripts/utils.js\<close>

text \<open>
  The helper module of the scripts; in this copy of the repository its text follows
  \<open>main\<close> in \<open>scripts/migrate-namespace.js\<close>.
\<close>

definition ACCOUNT_DISCRIMINATOR_LENGTH :: nat where "ACCOUNT_DISCRIMINATOR_LENGTH = 8"
definition PUBKEY_LENGTH :: nat where "PUBKEY_LENGTH = 32"
definition U64_LENGTH :: nat where "U64_LENGTH = 8"
definition U8_LENGTH :: nat where "U8_LENGTH = 1"
definition MANIFEST_HASH_LENGTH :: nat where "MANIFEST_HASH_LENGTH = 32"
definition MANIFEST_MAX_URI_LENGTH :: nat where "MANIFEST_MAX_URI_LENGTH = 128"
definition MANIFEST_URI_PADDING_LENGTH :: nat where "MANIFEST_URI_PADDING_LENGTH = 1"
definition MANIFEST_URI_LENGTH_FIELD_LENGTH :: nat where "MANIFEST_URI_LENGTH_FIELD_LENGTH = 2"

definition MANIFEST_CREATOR_OFFSET :: nat where
  "MANIFEST_CREATOR_OFFSET =
     ACCOUNT_DISCRIMINATOR_LENGTH +
     PUBKEY_LENGTH +
     U64_LENGTH +
     PUBKEY_LENGTH +
     U8_LENGTH +
     U8_LENGTH +
     U8_LENGTH +
     U8_LENGTH +
     U8_LENGTH +
     MANIFEST_HASH_LENGTH +
     MANIFEST_MAX_URI_LENGTH +
     MANIFEST_URI_PADDING_LENGTH +
     MANIFEST_URI_LENGTH_FIELD_LENGTH"

definition MANIFEST_CREATOR_END :: nat where
  "MANIFEST_CREATOR_END = MANIFEST_CREATOR_OFFSET + PUBKEY_LENGTH"

text \<open>\<open>buffer.subarray(start, end)\<close> for indices inside the buffer.\<close>

definition subarray :: "buffer \<Rightarrow> nat \<Rightarrow> nat \<Rightarrow> buffer" where
  "subarray b start stop = take (stop - start) (drop start b)"

text \<open>
  \<open>deserializeManifestCreator(data)\<close>: \<open>None\<close> is a missing (null or undefined)
  \<open>data\<close>.
\<close>

definition deserializeManifestCreator :: "buffer option \<Rightarrow> error + PublicKey" where
  "deserializeManifestCreator data =
     (case data of
        None \<Rightarrow> Inl ManifestDataMissing
      | Some buffer \<Rightarrow>
          if length buffer < MANIFEST_CREATOR_END then Inl ManifestDataTooSmall
          else new_PublicKey (subarray buffer MANIFEST_CREATOR_OFFSET MANIFEST_CREATOR_END))"

text \<open>
  \<open>ensureManifestCreatorPresent(creators, manifestCreator, manifestPda)\<close>.  A creator is
  the object that the parsing loops of \<open>parseCreators\<close> push:
  \<open>{ address, share, verified, keypairPath }\<close>.  The two \<open>instanceof\<close> guards hold by
  typing here, and \<open>manifestPda\<close> only serves the message.
\<close>

record creator =
  address :: PublicKey
  share :: int
  verified :: bool
  keypairPath :: "jsstring option"

definition equals :: "PublicKey \<Rightarrow> PublicKey \<Rightarrow> bool" where
  "equals a b \<longleftrightarrow> toBuffer a = toBuffer b"


section \<open>scripts/mint-object.js and scripts/update-manifest.js\<close>


subsection \<open>String helpers of the language\<close>

text \<open>
  \<open>String.prototype.trim\<close> removes white space and line terminators from both ends.
\<close>

definition is_js_whitespace :: "16 word \<Rightarrow> bool" where
  "is_js_whitespace u \<longleftrightarrow>
     (let c = unat u in
      c = 0x9 \<or> c = 0xA \<or> c = 0xB \<or> c = 0xC \<or> c = 0xD \<or> c = 0x20 \<or> c = 0xA0 \<or>
      c = 0x1680 \<or> (0x2000 \<le> c \<and> c \<le> 0x200A) \<or> c = 0x2028 \<or> c = 0x2029 \<or>
      c = 0x202F \<or> c = 0x205F \<or> c = 0x3000 \<or> c = 0xFEFF)"

definition trim :: "jsstring \<Rightarrow> jsstring" where
  "trim s = rev (dropWhile is_js_whitespace (rev (dropWhile is_js_whitespace s)))"

definition startsWith :: "jsstring \<Rightarrow> jsstring \<Rightarrow> bool" where
  "startsWith s p \<longleftrightarrow> take (length p) s = p"

text \<open>The character class \<open>[0-9a-fA-F]\<close> and the value of a hexadecimal digit.\<close>

definition is_hex_digit :: "16 word \<Rightarrow> bool" where
  "is_hex_digit u \<longleftrightarrow>
     (let c = unat u in (48 \<le> c \<and> c \<le> 57) \<or> (97 \<le> c \<and> c \<le> 102) \<or> (65 \<le> c \<and> c \<le> 70))"

definition hex_value :: "16 word \<Rightarrow> nat option" where
  "hex_value u =
     (let c = unat u in
      if 48 \<le> c \<and> c \<le> 57 then Some (c - 48)
      else if 97 \<le> c \<and> c \<le> 102 then Some (c - 97 + 10)
      else if 65 \<le> c \<and> c \<le> 70 then Some (c - 65 + 10)
      else None)"

text \<open>
  \<open>Buffer.from(s, 'hex')\<close> decodes pairs of hexadecimal digits and stops at the first
  pair that is not one (or at a trailing single character).
\<close>

fun Buffer_from_hex :: "jsstring \<Rightarrow> buffer" where
  "Buffer_from_hex (a # b # rest) =
     (case (hex_value a, hex_value b) of
        (Some h, Some l) \<Rightarrow> of_nat (16 * h + l) # Buffer_from_hex rest
      | _ \<Rightarrow> [])"
| "Buffer_from_hex _ = []"


subsection \<open>parseManifestHash\<close>

definition strip_0x :: "jsstring \<Rightarrow> jsstring" where
  "strip_0x cleaned =
     (if startsWith cleaned (js ''0x'') \<or> startsWith cleaned (js ''0X'')
      then drop 2 cleaned else cleaned)"

text \<open>\<open>None\<close> is an \<open>input\<close> that is undefined; the empty string is falsy as well.\<close>

definition parseManifestHash :: "jsstring option \<Rightarrow> error + buffer" where
  "parseManifestHash input =
     (case input of
        None \<Rightarrow> Inl ManifestHashMissing
      | Some s \<Rightarrow>
          if s = [] then Inl ManifestHashMissing
          else
            let cleaned = strip_0x (trim s)
            in if length cleaned \<noteq> 64 then Inl ManifestHashNot32Bytes
               else if \<not> (cleaned \<noteq> [] \<and> list_all is_hex_digit cleaned)
                 then Inl ManifestHashNotHex
               else Inr (Buffer_from_hex cleaned))"

text \<open>
  The hexadecimal renderings of a buffer, to state the round trip: two digits per byte,
  the digit at position \<open>i\<close> in upper case when \<open>up i\<close> holds.
\<close>

definition hex_digit :: "bool \<Rightarrow> nat \<Rightarrow> 16 word" where
  "hex_digit upper n =
     (if n < 10 then of_nat (48 + n)
      else if upper then of_nat (65 + (n - 10)) else of_nat (97 + (n - 10)))"

fun hex_render :: "(nat \<Rightarrow> bool) \<Rightarrow> nat \<Rightarrow> buffer \<Rightarrow> jsstring" where
  "hex_render up i [] = []"
| "hex_render up i (b # bs) =
     hex_digit (up i) (unat b div 16) # hex_digit (up (i + 1)) (unat b mod 16)
       # hex_render up (i + 2) bs"

subsection \<open>Program-derived addresses\<close>

text \<open>
  \<open>OGAL_PROGRAM_ID\<close> is the key that the base-58 text
  \<open>GwMpopxNkDYsnucBRPf47QSEsEzA3rS1o6ioMX78hgqx\<close> denotes.  The library function
  \<open>PublicKey.findProgramAddressSync(seeds, programId)\<close> is a parameter \<open>fpa\<close> of every
  derivation: it hashes the seeds, a bump and the program id, and returns the address
  with the bump.
\<close>

type_synonym find_program_address = "buffer list \<Rightarrow> PublicKey \<Rightarrow> PublicKey \<times> nat"

definition OGAL_PROGRAM_ID :: PublicKey where
  "OGAL_PROGRAM_ID = PublicKey
     [236, 204, 54, 178, 51, 65, 179, 81, 204, 61, 41, 133, 159, 187, 188, 219,
      99, 161, 227, 49, 86, 33, 127, 4, 38, 227, 172, 116, 249, 225, 168, 131]"

definition deriveConfigPda :: "find_program_address \<Rightarrow> PublicKey \<Rightarrow> PublicKey \<times> nat" where
  "deriveConfigPda fpa namespace = fpa [ascii_bytes ''config'', toBuffer namespace] OGAL_PROGRAM_ID"

definition deriveAuthPda :: "find_program_address \<Rightarrow> PublicKey \<Rightarrow> PublicKey \<times> nat" where
  "deriveAuthPda fpa config = fpa [ascii_bytes ''auth'', toBuffer config] OGAL_PROGRAM_ID"

definition MANIFEST_SEED :: buffer where
  "MANIFEST_SEED = ascii_bytes ''object_manifest''"

definition MINT_SEED :: buffer where
  "MINT_SEED = ascii_bytes ''object_mint''"

text \<open>
  \<open>buf.writeBigUInt64LE(value, 0)\<close> on a fresh buffer of 8 bytes: a range error outside
  0 .. 2^64 - 1, else the eight bytes of the value, least significant first.
\<close>

definition writeBigUInt64LE :: "int \<Rightarrow> error + buffer" where
  "writeBigUInt64LE v =
     (if v < 0 \<or> 2 ^ 64 \<le> v then Inl RangeError
      else Inr (map (\<lambda>i. of_int (v div 256 ^ i)) [0..<8]))"

definition deriveManifestPda ::
    "find_program_address \<Rightarrow> PublicKey \<Rightarrow> int \<Rightarrow> error + PublicKey \<times> nat" where
  "deriveManifestPda fpa config objectId =
     (case writeBigUInt64LE objectId of
        Inl e \<Rightarrow> Inl e
      | Inr objectIdBytes \<Rightarrow>
          Inr (fpa [MANIFEST_SEED, toBuffer config, objectIdBytes] OGAL_PROGRAM_ID))"

definition deriveObjectMintPda :: "find_program_address \<Rightarrow> PublicKey \<Rightarrow> PublicKey \<times> nat" where
  "deriveObjectMintPda fpa manifest = fpa [MINT_SEED, toBuffer manifest] OGAL_PROGRAM_ID"

text \<open>The value of a little-endian byte sequence, to read the object id seed back.\<close>

fun le_value :: "buffer \<Rightarrow> int" where
  "le_value [] = 0"
| "le_value (b # bs) = uint b + 256 * le_value bs"

subsection \<open>parseCreators\<close>


definition totalShare :: "creator list \<Rightarrow> int" where
  "totalShare creators = foldl (\<lambda>sum c. sum + share c) 0 creators"


subsection \<open>The checks of mint-object's main\<close>

text \<open>
  What \<open>main\<close> reads from outside the script: the library's parsers, the key files
  and the RPC node.  \<open>None\<close> stands for a throw of the call.
  \<^item> \<open>PublicKey_of_string\<close>: \<open>new PublicKey(text)\<close>;
  \<^item> \<open>BigInt_of_string\<close>: \<open>BigInt(text)\<close>;
  \<^item> \<open>loadKeypair_publicKey\<close>: \<open>loadKeypair(path).publicKey\<close>;
  \<^item> \<open>findProgramAddressSync\<close>: the derivation of the library;
  \<^item> \<open>getAccountInfo\<close>: the account's data, \<open>Some None\<close> when the node has no such
    account.
\<close>

record world =
  PublicKey_of_string :: "jsstring \<Rightarrow> PublicKey option"
  BigInt_of_string :: "jsstring \<Rightarrow> int option"
  loadKeypair_publicKey :: "jsstring \<Rightarrow> PublicKey option"
  findProgramAddressSync :: find_program_address
  getAccountInfo :: "PublicKey \<Rightarrow> buffer option option"












section \<open>Transactions: what the scripts send and what comes back\<close>

text \<open>
  \<open>instructionDiscriminator(name)\<close> is the first 8 bytes of the SHA-256 digest of
  \<open>global:name\<close>; the legacy one hashes \<open>global::name\<close>.  The digest function of the
  crypto module is the parameter \<open>sha256\<close>.
\<close>

definition instructionDiscriminator :: "(buffer \<Rightarrow> buffer) \<Rightarrow> string \<Rightarrow> buffer" where
  "instructionDiscriminator sha256 name = take 8 (sha256 (ascii_bytes (''global:'' @ name)))"


text \<open>
  \<open>source.copy(target, targetStart)\<close> writes the source over the target from
  \<open>targetStart\<close> on, as far as the target reaches; \<open>Buffer.alloc(n)\<close> is \<open>n\<close> zeros.
\<close>

definition Buffer_alloc :: "nat \<Rightarrow> buffer" where
  "Buffer_alloc n = replicate n 0"

definition buffer_copy :: "buffer \<Rightarrow> buffer \<Rightarrow> nat \<Rightarrow> buffer" where
  "buffer_copy source target targetStart =
     take targetStart target @ take (length target - targetStart) source
       @ drop (targetStart + length source) target"

text \<open>
  An error that a call to the node rejects with: its two message fields (\<open>None\<close>:
  absent), whether it is a \<open>SendTransactionError\<close>, what its \<open>getLogs\<close> method
  resolves to (\<open>None\<close>: no such method; \<open>Some None\<close>: the method rejects), and its
  \<open>logs\<close> and \<open>transactionLogs\<close> fields.  A field value is undefined (or null), an array
  of texts, or something else, truthy or not.
\<close>

datatype logs_value = Undefined | LogArray "jsstring list" | OtherValue bool

record send_error =
  err_message :: "jsstring option"
  err_transactionMessage :: "jsstring option"
  err_isSendTransactionError :: bool
  err_getLogs :: "logs_value option option"
  err_logs :: logs_value
  err_transactionLogs :: logs_value

datatype thrown = Raised error | Rejected send_error

text \<open>
  The node: the outcome of the \<open>k\<close>-th \<open>getLatestBlockhash\<close> and of the \<open>k\<close>-th
  \<open>sendAndConfirmTransaction\<close>, which may depend on the instruction data sent.
\<close>

record rpc =
  getLatestBlockhash :: "nat \<Rightarrow> send_error + buffer"
  sendAndConfirmTransaction :: "nat \<Rightarrow> buffer \<Rightarrow> send_error + jsstring"

datatype effect =
    LoadKeypair jsstring
  | DerivePda "buffer list"
  | RpcGetLatestBlockhash
  | RpcSendTransaction buffer

subsection \<open>collectLogs and isFallbackError\<close>








section \<open>scripts/rotate-collection-authority.js\<close>
















section \<open>scripts/migrate-namespace.js\<close>

record migrate_argv =
  mg_old_namespace :: jsstring
  mg_new_namespace :: jsstring
  mg_authority_keypair :: jsstring

definition MIGRATE_NAMESPACE_DISCRIMINATOR :: "(buffer \<Rightarrow> buffer) \<Rightarrow> buffer" where
  "MIGRATE_NAMESPACE_DISCRIMINATOR sha256 = instructionDiscriminator sha256 ''migrate_config_namespace''"

definition config_seeds :: "PublicKey \<Rightarrow> buffer list" where
  "config_seeds namespace = [ascii_bytes ''config'', toBuffer namespace]"

definition auth_seeds :: "PublicKey \<Rightarrow> buffer list" where
  "auth_seeds config = [ascii_bytes ''auth'', toBuffer config]"

text \<open>
  \<open>main\<close> of migrate-namespace: the result (the signature logged, or what is thrown)
  with what it did before, in order: key files loaded, addresses derived, calls to the
  node.
\<close>

definition migrate_namespace_main ::
    "world \<Rightarrow> (buffer \<Rightarrow> buffer) \<Rightarrow> rpc \<Rightarrow> migrate_argv \<Rightarrow> (thrown + jsstring) \<times> effect list" where
  "migrate_namespace_main w sha256 node argv =
     (case PublicKey_of_string w (mg_old_namespace argv) of
        None \<Rightarrow> (Inl (Raised InvalidPublicKeyInput), [])
      | Some oldNamespace \<Rightarrow>
     (case PublicKey_of_string w (mg_new_namespace argv) of
        None \<Rightarrow> (Inl (Raised InvalidPublicKeyInput), [])
      | Some newNamespace \<Rightarrow>
     if equals oldNamespace newNamespace then (Inl (Raised NamespaceMustDiffer), [])
     else
     (case loadKeypair_publicKey w (mg_authority_keypair argv) of
        None \<Rightarrow> (Inl (Raised KeypairUnreadable), [LoadKeypair (mg_authority_keypair argv)])
      | Some authority \<Rightarrow>
          let oldConfigPda = fst (deriveConfigPda (findProgramAddressSync w) oldNamespace);
              newConfigPda = fst (deriveConfigPda (findProgramAddressSync w) newNamespace);
              oldAuthPda = fst (deriveAuthPda (findProgramAddressSync w) oldConfigPda);
              newAuthPda = fst (deriveAuthPda (findProgramAddressSync w) newConfigPda);
              steps = [LoadKeypair (mg_authority_keypair argv),
                       DerivePda (config_seeds oldNamespace), DerivePda (config_seeds newNamespace),
                       DerivePda (auth_seeds oldConfigPda), DerivePda (auth_seeds newConfigPda)];
              data = buffer_copy (toBuffer newNamespace)
                       (buffer_copy (MIGRATE_NAMESPACE_DISCRIMINATOR sha256) (Buffer_alloc (8 + 32)) 0) 8
          in (case getLatestBlockhash node 0 of
                Inl e \<Rightarrow> (Inl (Rejected e), steps @ [RpcGetLatestBlockhash])
              | Inr blockhash \<Rightarrow>
                 (case sendAndConfirmTransaction node 0 data of
                    Inl err \<Rightarrow>
                      (Inl (Rejected err), steps @ [RpcGetLatestBlockhash, RpcSendTransaction data])
                  | Inr signature \<Rightarrow>
                      (Inr signature, steps @ [RpcGetLatestBlockhash, RpcSendTransaction data]))))))"

section \<open>The on-chain program\<close>

text \<open>
  Modelled from the spec: the program itself
  (\<open>programs/owner_governed_asset_ledger/src/lib.rs\<close>), which is missing from the
  sources; the scripts above only build its instructions.  Its data model is that of
  the specification (section 3), as are its errors (section 7) and events (section 6).
\<close>

type_synonym u64 = "64 word"

datatype program_error =
    UnauthorizedDeployer
  | AccountInUse
  | MintingPaused
  | AccountMismatch
  | InvalidCreatorShares
  | MissingManifestCreator
  | CreatorMustSign
  | UriTooLong
  | NotTokenHolder
  | ManifestUninitialized
  | ExternalProtocolError

record configuration =
  authority :: PublicKey
  namespace :: PublicKey
  paused :: bool
  object_count :: u64

record object_manifest =
  object_id :: u64
  config :: PublicKey
  mint :: PublicKey
  creator :: PublicKey
  manifest_hash :: buffer
  metadata_uri :: buffer
  is_active :: bool
  minted :: bool
  initialized :: bool

record object_mint =
  mint_authority :: PublicKey
  freeze_authority :: PublicKey
  decimals :: nat
  total_supply :: nat

record token_account =
  holder :: PublicKey
  token_mint :: PublicKey
  amount :: nat

datatype collection_anchor = Sized nat | Unsized

datatype ogal_event =
    MintCompleted PublicKey PublicKey PublicKey PublicKey u64
  | ManifestUpdated PublicKey PublicKey PublicKey u64 bool
  | PauseChanged PublicKey bool

text \<open>
  Modelled from the spec: the state that the missing program works on.  The ledger holds
  the accounts of the program and of the token standard by address, the records that
  the external metadata protocol keeps (by mint), the collection anchors, and the
  events emitted so far.
\<close>

record ledger =
  configurations :: "PublicKey \<rightharpoonup> configuration"
  mint_authorities :: "PublicKey set"
  manifests :: "PublicKey \<rightharpoonup> object_manifest"
  mints :: "PublicKey \<rightharpoonup> object_mint"
  token_accounts :: "PublicKey \<rightharpoonup> token_account"
  metadata_records :: "PublicKey set"
  master_records :: "PublicKey set"
  anchors :: "PublicKey \<rightharpoonup> collection_anchor"
  events :: "ogal_event list"

text \<open>
  Modelled from the spec: the deterministic addresses that the missing program derives
  (section 6 of the specification); each is a function of its parent, given here as
  parameters.
\<close>

record addressing =
  config_address :: "PublicKey \<Rightarrow> PublicKey"
  mint_authority_address :: "PublicKey \<Rightarrow> PublicKey"
  manifest_address :: "PublicKey \<Rightarrow> u64 \<Rightarrow> PublicKey"
  mint_address :: "PublicKey \<Rightarrow> PublicKey"
  token_account_address :: "PublicKey \<Rightarrow> PublicKey \<Rightarrow> PublicKey"

subsection \<open>initialize\<close>

text \<open>
  Modelled from the spec: the \<open>initialize\<close> instruction of the program, which is
  missing from the sources.  Section 4.1: it "creates Configuration + Mint Authority;
  caller must be the fee-payer or on an explicit allow-list, else fails with an
  authorization error".  The allow-list (\<open>ALLOWED_DEPLOYERS\<close> of the program) is the
  parameter \<open>allowed\<close>; a namespace that has its configuration already cannot be
  created again ("one per namespace", "created once").
\<close>

definition initialize ::
    "addressing \<Rightarrow> PublicKey list \<Rightarrow> PublicKey \<Rightarrow> PublicKey \<Rightarrow> PublicKey \<Rightarrow> ledger
      \<Rightarrow> program_error + ledger" where
  "initialize A allowed caller payer ns s =
     (if \<not> (caller = payer \<or> caller \<in> set allowed) then Inl UnauthorizedDeployer
      else
        let c = config_address A ns
        in if configurations s c \<noteq> None then Inl AccountInUse
           else Inr (s \<lparr> configurations := (configurations s)
                            (c \<mapsto> \<lparr> authority = caller, namespace = ns, paused = False,
                                     object_count = 0 \<rparr>),
                         mint_authorities := insert (mint_authority_address A c) (mint_authorities s) \<rparr>))"

subsection \<open>update_object_manifest\<close>

text \<open>
  Modelled from the spec: the two caps on the URI that the missing program enforces,
  its own and the external protocol's (section 4.3).
\<close>

definition MAX_URI_LENGTH :: nat where
  "MAX_URI_LENGTH = 128"

definition METADATA_MAX_URI_LENGTH :: nat where
  "METADATA_MAX_URI_LENGTH = 200"

record update_call =
  upd_caller :: PublicKey
  upd_config :: PublicKey
  upd_manifest :: PublicKey
  upd_token_account :: PublicKey
  upd_hash :: buffer
  upd_uri :: buffer
  upd_is_active :: bool

text \<open>
  Modelled from the spec: the \<open>update_object_manifest\<close> instruction of the program,
  which is missing from the sources.  Section 4.3 and the document on the instruction:
  the length limits come first (the registry's cap of 128 and the external protocol's cap
  of 200), then the ownership proof (the token account presented belongs to the caller,
  holds the object's mint and a balance of at least 1), then the integrity of the
  manifest (initialized, of this configuration); only then the hash, the URI and the
  active flag are overwritten and a manifest-updated event is emitted.
\<close>

definition update_object_manifest :: "update_call \<Rightarrow> ledger \<Rightarrow> program_error + ledger" where
  "update_object_manifest c s =
     (if length (upd_uri c) > MAX_URI_LENGTH \<or> length (upd_uri c) > METADATA_MAX_URI_LENGTH
      then Inl UriTooLong
      else case manifests s (upd_manifest c) of
        None \<Rightarrow> Inl AccountMismatch
      | Some m \<Rightarrow>
         (case token_accounts s (upd_token_account c) of
            None \<Rightarrow> Inl NotTokenHolder
          | Some t \<Rightarrow>
              if holder t \<noteq> upd_caller c \<or> token_mint t \<noteq> mint m \<or> amount t < 1
              then Inl NotTokenHolder
              else if \<not> initialized m then Inl ManifestUninitialized
              else if config m \<noteq> upd_config c then Inl AccountMismatch
              else Inr (s \<lparr> manifests := (manifests s)
                              (upd_manifest c \<mapsto> m \<lparr> manifest_hash := upd_hash c,
                                                      metadata_uri := upd_uri c,
                                                      is_active := upd_is_active c \<rparr>),
                            events := events s @
                              [ManifestUpdated (config m) (upd_manifest c) (mint m) (object_id m)
                                 (upd_is_active c)] \<rparr>)))"

subsection \<open>mint_object_nft\<close>

text \<open>
  Modelled from the spec: the \<open>mint_object_nft\<close> instruction of the program, which is
  missing from the sources.  Section 4.2 numbers its phases; each is a function below,
  on the ledger and the list of things done so far, and \<open>mint_object_nft\<close> runs them in
  that order.  An error ends the instruction and nothing of it persists (section 5).
  Phases 5, 7 and 8 run only when the manifest's \<open>minted\<close> flag, read once the accounts
  are ensured, is false.  The calls into the external metadata protocol succeed or fail
  as \<open>external_protocol\<close> says.  What the specification leaves open is filled in the
  plainest way: a manifest is created with the hash and the URI of the call and active.
\<close>

datatype step =
    CreateManifest
  | CreateMint
  | CreateTokenAccount
  | CreateMetadata
  | IssueToken
  | CreateMasterRecord
  | VerifySizedCollection
  | VerifyUnsizedCollection
  | Bookkeeping

record chain_creator =
  creator_address :: PublicKey
  creator_share :: nat
  creator_verified :: bool

record mint_call =
  call_config :: PublicKey
  call_payer :: PublicKey
  call_recipient :: PublicKey
  call_collection :: PublicKey
  call_signers :: "PublicKey list"
  call_object_id :: u64
  call_uri :: buffer
  call_hash :: buffer
  call_name :: buffer
  call_symbol :: buffer
  call_fee_bps :: nat
  call_creators :: "chain_creator list"

record external_protocol =
  metadata_creation_ok :: bool
  master_record_ok :: bool
  collection_verification_ok :: bool

type_synonym progress = "ledger \<times> step list"

definition and_then :: "program_error + 'a \<Rightarrow> ('a \<Rightarrow> program_error + 'b) \<Rightarrow> program_error + 'b" where
  "and_then r f = (case r of Inl e \<Rightarrow> Inl e | Inr x \<Rightarrow> f x)"

definition manifest_of :: "addressing \<Rightarrow> mint_call \<Rightarrow> PublicKey" where
  "manifest_of A c = manifest_address A (call_config c) (call_object_id c)"

definition mint_of :: "addressing \<Rightarrow> mint_call \<Rightarrow> PublicKey" where
  "mint_of A c = mint_address A (manifest_of A c)"

definition recipient_account_of :: "addressing \<Rightarrow> mint_call \<Rightarrow> PublicKey" where
  "recipient_account_of A c = token_account_address A (call_recipient c) (mint_of A c)"

text \<open>
  Modelled from the spec: phase 1 of the missing instruction, the pause check.  It fails
  fast if the namespace is paused; no accounts touched.
\<close>

definition pause_check :: "mint_call \<Rightarrow> ledger \<Rightarrow> program_error + unit" where
  "pause_check c s =
     (case configurations s (call_config c) of
        None \<Rightarrow> Inl AccountMismatch
      | Some cfg \<Rightarrow> if paused cfg then Inl MintingPaused else Inr ())"

text \<open>
  Modelled from the spec: phase 2 of the missing instruction, manifest ensure.  Create
  if absent (initialized = false, creator = caller); if present, verify the config
  match.
\<close>

definition manifest_ensure :: "addressing \<Rightarrow> mint_call \<Rightarrow> progress \<Rightarrow> program_error + progress" where
  "manifest_ensure A c p =
     (case manifests (fst p) (manifest_of A c) of
        None \<Rightarrow>
          Inr ((fst p) \<lparr> manifests := (manifests (fst p))
                  (manifest_of A c \<mapsto>
                     \<lparr> object_id = call_object_id c, config = call_config c,
                       mint = mint_of A c, creator = call_payer c,
                       manifest_hash = call_hash c, metadata_uri = call_uri c,
                       is_active = True, minted = False, initialized = False \<rparr>) \<rparr>,
               snd p @ [CreateManifest])
      | Some m \<Rightarrow>
          if config m = call_config c \<and> object_id m = call_object_id c \<and> mint m = mint_of A c
          then Inr p else Inl AccountMismatch)"

text \<open>
  Modelled from the spec: phase 3 of the missing instruction, mint ensure.  Create a
  zero-decimal mint with the Mint Authority as mint and freeze authority if absent; else
  verify the authority.
\<close>

definition mint_ensure :: "addressing \<Rightarrow> mint_call \<Rightarrow> progress \<Rightarrow> program_error + progress" where
  "mint_ensure A c p =
     (let auth = mint_authority_address A (call_config c)
      in case mints (fst p) (mint_of A c) of
           None \<Rightarrow>
             Inr ((fst p) \<lparr> mints := (mints (fst p))
                     (mint_of A c \<mapsto> \<lparr> mint_authority = auth, freeze_authority = auth,
                                       decimals = 0, total_supply = 0 \<rparr>) \<rparr>,
                  snd p @ [CreateMint])
         | Some t \<Rightarrow>
             if mint_authority t = auth \<and> freeze_authority t = auth \<and> decimals t = 0
             then Inr p else Inl AccountMismatch)"

text \<open>
  Modelled from the spec: phase 4 of the missing instruction, recipient token account
  ensure.  Create if absent; else verify ownership.
\<close>

definition token_account_ensure ::
    "addressing \<Rightarrow> mint_call \<Rightarrow> progress \<Rightarrow> program_error + progress" where
  "token_account_ensure A c p =
     (case token_accounts (fst p) (recipient_account_of A c) of
        None \<Rightarrow>
          Inr ((fst p) \<lparr> token_accounts := (token_accounts (fst p))
                  (recipient_account_of A c \<mapsto>
                     \<lparr> holder = call_recipient c, token_mint = mint_of A c, amount = 0 \<rparr>) \<rparr>,
               snd p @ [CreateTokenAccount])
      | Some t \<Rightarrow>
          if holder t = call_recipient c \<and> token_mint t = mint_of A c
          then Inr p else Inl AccountMismatch)"

text \<open>
  Modelled from the spec: phase 5 of the missing instruction, first-mint metadata
  creation.  The creator shares must sum to exactly 100 and include the manifest's
  recorded creator; verified creators other than the payer must co-sign; then the
  external metadata record is created.
\<close>

definition create_metadata ::
    "addressing \<Rightarrow> external_protocol \<Rightarrow> mint_call \<Rightarrow> progress \<Rightarrow> program_error + progress" where
  "create_metadata A ext c p =
     (case manifests (fst p) (manifest_of A c) of
        None \<Rightarrow> Inl AccountMismatch
      | Some m \<Rightarrow>
          if sum_list (map creator_share (call_creators c)) \<noteq> 100 then Inl InvalidCreatorShares
          else if creator m \<notin> set (map creator_address (call_creators c))
            then Inl MissingManifestCreator
          else if list_ex (\<lambda>k. creator_verified k \<and> creator_address k \<noteq> call_payer c
                                \<and> creator_address k \<notin> set (call_signers c)) (call_creators c)
            then Inl CreatorMustSign
          else if \<not> metadata_creation_ok ext then Inl ExternalProtocolError
          else Inr ((fst p) \<lparr> metadata_records := insert (mint_of A c) (metadata_records (fst p)) \<rparr>,
                    snd p @ [CreateMetadata]))"

text \<open>
  Modelled from the spec: phase 6 of the missing instruction, token issuance.  It always
  executes and mints exactly one unit to the recipient.
\<close>

definition token_issuance :: "addressing \<Rightarrow> mint_call \<Rightarrow> progress \<Rightarrow> program_error + progress" where
  "token_issuance A c p =
     (case (mints (fst p) (mint_of A c), token_accounts (fst p) (recipient_account_of A c)) of
        (Some t, Some r) \<Rightarrow>
          Inr ((fst p) \<lparr> mints := (mints (fst p))
                            (mint_of A c \<mapsto> t \<lparr> total_supply := total_supply t + 1 \<rparr>),
                        token_accounts := (token_accounts (fst p))
                            (recipient_account_of A c \<mapsto> r \<lparr> amount := amount r + 1 \<rparr>) \<rparr>,
               snd p @ [IssueToken])
      | _ \<Rightarrow> Inl AccountMismatch)"

text \<open>
  Modelled from the spec: phase 7 of the missing instruction, first-mint master-record
  creation, a call into the external protocol.
\<close>

definition create_master_record ::
    "addressing \<Rightarrow> external_protocol \<Rightarrow> mint_call \<Rightarrow> progress \<Rightarrow> program_error + progress" where
  "create_master_record A ext c p =
     (if \<not> master_record_ok ext then Inl ExternalProtocolError
      else Inr ((fst p) \<lparr> master_records := insert (mint_of A c) (master_records (fst p)) \<rparr>,
                snd p @ [CreateMasterRecord]))"

text \<open>
  Modelled from the spec: phase 8 of the missing instruction, first-mint collection
  verification.  Exactly one of two external calls, chosen by the anchor's sizing; the
  sized one increments the tracked count.
\<close>

definition verify_collection ::
    "external_protocol \<Rightarrow> mint_call \<Rightarrow> progress \<Rightarrow> program_error + progress" where
  "verify_collection ext c p =
     (if \<not> collection_verification_ok ext then Inl ExternalProtocolError
      else case anchors (fst p) (call_collection c) of
        None \<Rightarrow> Inl ExternalProtocolError
      | Some (Sized n) \<Rightarrow>
          Inr ((fst p) \<lparr> anchors := (anchors (fst p)) (call_collection c \<mapsto> Sized (n + 1)) \<rparr>,
               snd p @ [VerifySizedCollection])
      | Some Unsized \<Rightarrow> Inr (fst p, snd p @ [VerifyUnsizedCollection]))"

text \<open>
  Modelled from the spec: phase 9 of the missing instruction, bookkeeping.  It sets
  \<open>minted = true\<close>, increments \<open>object_count\<close> and emits the mint-completed event.
\<close>

definition bookkeeping :: "addressing \<Rightarrow> mint_call \<Rightarrow> progress \<Rightarrow> program_error + progress" where
  "bookkeeping A c p =
     (case (manifests (fst p) (manifest_of A c), configurations (fst p) (call_config c)) of
        (Some m, Some cfg) \<Rightarrow>
          Inr ((fst p) \<lparr> manifests := (manifests (fst p))
                            (manifest_of A c \<mapsto> m \<lparr> minted := True \<rparr>),
                        configurations := (configurations (fst p))
                            (call_config c \<mapsto> cfg \<lparr> object_count := object_count cfg + 1 \<rparr>),
                        events := events (fst p) @
                            [MintCompleted (call_config c) (manifest_of A c) (mint_of A c)
                               (call_recipient c) (call_object_id c)] \<rparr>,
               snd p @ [Bookkeeping])
      | _ \<Rightarrow> Inl AccountMismatch)"

text \<open>
  Modelled from the spec: the gate of the missing instruction and the instruction
  itself.  Phases 5, 7 and 8 are skipped whenever \<open>minted\<close> is already true.
\<close>

definition was_minted :: "addressing \<Rightarrow> mint_call \<Rightarrow> ledger \<Rightarrow> bool" where
  "was_minted A c s = (case manifests s (manifest_of A c) of None \<Rightarrow> False | Some m \<Rightarrow> minted m)"

definition first_mint_only ::
    "bool \<Rightarrow> (progress \<Rightarrow> program_error + progress) \<Rightarrow> progress \<Rightarrow> program_error + progress" where
  "first_mint_only already phase p = (if already then Inr p else phase p)"

definition mint_object_nft ::
    "addressing \<Rightarrow> external_protocol \<Rightarrow> mint_call \<Rightarrow> ledger \<Rightarrow> program_error + progress" where
  "mint_object_nft A ext c s =
     and_then (pause_check c s) (\<lambda>u.
     and_then (manifest_ensure A c (s, [])) (\<lambda>p2.
     and_then (mint_ensure A c p2) (\<lambda>p3.
     and_then (token_account_ensure A c p3) (\<lambda>p4.
     and_then (first_mint_only (was_minted A c (fst p4)) (create_metadata A ext c) p4) (\<lambda>p5.
     and_then (token_issuance A c p5) (\<lambda>p6.
     and_then (first_mint_only (was_minted A c (fst p4)) (create_master_record A ext c) p6) (\<lambda>p7.
     and_then (first_mint_only (was_minted A c (fst p4)) (verify_collection ext c) p7) (\<lambda>p8.
     bookkeeping A c p8))))))))"

text \<open>The first-mint steps are those of the three gated phases.\<close>

definition first_mint_steps :: "step set" where
  "first_mint_steps =
     {CreateMetadata, CreateMasterRecord, VerifySizedCollection, VerifyUnsizedCollection}"

section \<open>Sample inputs\<close>

text \<open>
  Four addresses that the documents of the repository name, with the keys that their
  base-58 texts denote: the mint-authority address of the production namespace (used
  below as a namespace), the collection mint, the developer wallet and the metadata
  program.
\<close>

definition sample_namespace :: PublicKey where
  "sample_namespace = PublicKey
     [224, 162, 44, 20, 199, 70, 4, 117, 136, 6, 204, 110, 156, 205, 185, 108,
      161, 89, 75, 161, 154, 197, 140, 210, 196, 42, 49, 159, 145, 157, 88, 162]"

definition sample_collection_mint :: PublicKey where
  "sample_collection_mint = PublicKey
     [203, 134, 17, 70, 219, 140, 176, 63, 117, 224, 211, 139, 173, 148, 209, 196,
      103, 199, 108, 44, 167, 83, 75, 50, 139, 240, 25, 77, 244, 86, 76, 27]"

definition sample_key :: PublicKey where
  "sample_key = PublicKey
     [194, 96, 115, 247, 128, 127, 199, 26, 185, 15, 232, 129, 57, 152, 188, 134,
      80, 126, 25, 139, 231, 203, 207, 188, 26, 70, 189, 64, 176, 249, 6, 196]"

definition TOKEN_METADATA_PROGRAM_ID :: PublicKey where
  "TOKEN_METADATA_PROGRAM_ID = PublicKey
     [11, 112, 101, 177, 227, 209, 124, 69, 56, 157, 82, 127, 107, 4, 195, 205,
      88, 184, 108, 115, 26, 160, 253, 181, 73, 182, 209, 188, 3, 248, 41, 70]"

text \<open>
  A world that answers the calls made below as the libraries do and throws elsewhere:
  the four texts denote their keys, the text 7 is the number 7, the two key files hold
  the developer wallet's key, and the node knows no account.  Its derivation of
  addresses is a stand-in for the library's.  Then the arguments of a mint of object 7
  with one creator, the payer, holding all 100 shares; \<open>accented_argv\<close> is the same
  mint with a manifest URI of 80 characters, 60 of them the letter e with an acute
  accent (two bytes each in UTF-8).
\<close>

definition sample_fpa :: find_program_address where
  "sample_fpa seeds programId = (PublicKey (take 32 (concat seeds @ replicate 32 0)), 255)"

definition sample_world :: world where
  "sample_world =
     \<lparr> PublicKey_of_string =
         (\<lambda>s. if s = js ''G7skWhSjK6oskMKMuCbVuRQSVvrhc1VN1nQYLHR8ewL5'' then Some sample_namespace
              else if s = js ''EhULHuQtpaKUZSdv1kQR7XwYGRfEaU8b1Y7JkbFGQHxW''
                then Some sample_collection_mint
              else if s = js ''E5mQ27muTebiYaohBsdsCwrvPN3MVoRmECFtL4A5Sx9q'' then Some sample_key
              else if s = js ''metaqbxxUerdq28cj1RbAWkYQm3ybzjb6a8bt518x1s''
                then Some TOKEN_METADATA_PROGRAM_ID
              else None),
       BigInt_of_string = (\<lambda>s. if s = js ''7'' then Some 7 else None),
       loadKeypair_publicKey =
         (\<lambda>p. if p = js ''payer.json'' \<or> p = js ''authority.json'' then Some sample_key
              else None),
       findProgramAddressSync = sample_fpa,
       getAccountInfo = (\<lambda>k. Some None) \<rparr>"




text \<open>
  For the rotation: a digest function that is SHA-256 on the two texts the script
  hashes, and a node that answers the first transaction with the log of an unknown
  instruction and confirms the second.  For the migration: the same namespace twice,
  and two namespaces.
\<close>

definition sample_sha256 :: "buffer \<Rightarrow> buffer" where
  "sample_sha256 m =
     (if m = ascii_bytes ''global:rotate_collection_authority''
      then [127, 21, 205, 57, 21, 40, 136, 55, 103, 9, 115, 113, 10, 219, 195, 41,
            210, 27, 161, 161, 116, 156, 70, 239, 44, 246, 48, 168, 68, 63, 107, 131]
      else if m = ascii_bytes ''global::rotate_collection_authority''
      then [173, 30, 192, 124, 93, 238, 110, 80, 181, 199, 88, 207, 212, 44, 244, 165,
            235, 107, 160, 47, 240, 196, 226, 168, 67, 246, 158, 70, 72, 199, 238, 131]
      else replicate 32 0)"

definition unknown_instruction_error :: send_error where
  "unknown_instruction_error =
     \<lparr> err_message = Some (js ''Simulation failed''),
       err_transactionMessage = None,
       err_isSendTransactionError = True,
       err_getLogs = None,
       err_logs = LogArray [js ''Program log: AnchorError occurred. Error Code: InstructionFallbackNotFound.''],
       err_transactionLogs = Undefined \<rparr>"

definition sample_node :: rpc where
  "sample_node =
     \<lparr> getLatestBlockhash = (\<lambda>k. Inr [1, 2, 3]),
       sendAndConfirmTransaction =
         (\<lambda>k data. if k = 0 then Inl unknown_instruction_error else Inr (js ''signature'')) \<rparr>"

definition same_namespace_argv :: migrate_argv where
  "same_namespace_argv =
     \<lparr> mg_old_namespace = js ''G7skWhSjK6oskMKMuCbVuRQSVvrhc1VN1nQYLHR8ewL5'',
       mg_new_namespace = js ''G7skWhSjK6oskMKMuCbVuRQSVvrhc1VN1nQYLHR8ewL5'',
       mg_authority_keypair = js ''authority.json'' \<rparr>"

definition new_namespace_argv :: migrate_argv where
  "new_namespace_argv =
     \<lparr> mg_old_namespace = js ''G7skWhSjK6oskMKMuCbVuRQSVvrhc1VN1nQYLHR8ewL5'',
       mg_new_namespace = js ''EhULHuQtpaKUZSdv1kQR7XwYGRfEaU8b1Y7JkbFGQHxW'',
       mg_authority_keypair = js ''authority.json'' \<rparr>"

text \<open>
  For the program: addresses that keep their parents apart, a ledger with one
  configuration and one sized collection anchor of 3 items, and a mint of object 7 by a
  payer who is its only creator.
\<close>

definition sample_addressing :: addressing where
  "sample_addressing =
     \<lparr> config_address = (\<lambda>ns. PublicKey (1 # toBuffer ns)),
       mint_authority_address = (\<lambda>c. PublicKey (2 # toBuffer c)),
       manifest_address = (\<lambda>c i. PublicKey (3 # of_nat (unat i) # toBuffer c)),
       mint_address = (\<lambda>m. PublicKey (4 # toBuffer m)),
       token_account_address = (\<lambda>r m. PublicKey (5 # toBuffer r @ toBuffer m)) \<rparr>"

definition sample_config :: PublicKey where
  "sample_config = PublicKey [1, 9]"

definition sample_collection :: PublicKey where
  "sample_collection = PublicKey [8]"

definition sample_ledger :: ledger where
  "sample_ledger =
     \<lparr> configurations = [sample_config \<mapsto>
          \<lparr> authority = sample_key, namespace = PublicKey [9], paused = False, object_count = 0 \<rparr>],
       mint_authorities = {PublicKey [2, 1, 9]},
       manifests = Map.empty,
       mints = Map.empty,
       token_accounts = Map.empty,
       metadata_records = {},
       master_records = {},
       anchors = [sample_collection \<mapsto> Sized 3],
       events = [] \<rparr>"

definition sample_call :: mint_call where
  "sample_call =
     \<lparr> call_config = sample_config,
       call_payer = sample_key,
       call_recipient = PublicKey [6],
       call_collection = sample_collection,
       call_signers = [sample_key],
       call_object_id = 7,
       call_uri = ascii_bytes ''https://example.com/level.json'',
       call_hash = replicate 32 255,
       call_name = ascii_bytes ''Level 7'',
       call_symbol = ascii_bytes ''LVL'',
       call_fee_bps = 500,
       call_creators = [\<lparr> creator_address = sample_key, creator_share = 100, creator_verified = True \<rparr>] \<rparr>"

definition all_ok :: external_protocol where
  "all_ok = \<lparr> metadata_creation_ok = True, master_record_ok = True,
              collection_verification_ok = True \<rparr>"

text \<open>The ledger after that mint.\<close>

definition sample_manifest :: object_manifest where
  "sample_manifest =
     \<lparr> object_id = 7, config = sample_config,
       mint = mint_of sample_addressing sample_call, creator = sample_key,
       manifest_hash = replicate 32 255,
       metadata_uri = ascii_bytes ''https://example.com/level.json'',
       is_active = True, minted = True, initialized = False \<rparr>"

definition sample_minted_ledger :: ledger where
  "sample_minted_ledger =
     \<lparr> configurations = [sample_config \<mapsto>
          \<lparr> authority = sample_key, namespace = PublicKey [9], paused = False, object_count = 1 \<rparr>],
       mint_authorities = {PublicKey [2, 1, 9]},
       manifests = [manifest_of sample_addressing sample_call \<mapsto> sample_manifest],
       mints = [mint_of sample_addressing sample_call \<mapsto>
          \<lparr> mint_authority = PublicKey [2, 1, 9], freeze_authority = PublicKey [2, 1, 9],
            decimals = 0, total_supply = 1 \<rparr>],
       token_accounts = [recipient_account_of sample_addressing sample_call \<mapsto>
          \<lparr> holder = PublicKey [6], token_mint = mint_of sample_addressing sample_call,
            amount = 1 \<rparr>],
       metadata_records = {mint_of sample_addressing sample_call},
       master_records = {mint_of sample_addressing sample_call},
       anchors = [sample_collection \<mapsto> Sized 4],
       events = [MintCompleted sample_config (manifest_of sample_addressing sample_call)
                   (mint_of sample_addressing sample_call) (PublicKey [6]) 7] \<rparr>"

text \<open>
  An update of that object's manifest by the holder of its token, on a ledger where
  the manifest is initialized, and the same update presenting an empty token account.
\<close>

definition sample_updatable_ledger :: ledger where
  "sample_updatable_ledger =
     sample_minted_ledger \<lparr> manifests :=
       [manifest_of sample_addressing sample_call \<mapsto> sample_manifest \<lparr> initialized := True \<rparr>] \<rparr>"

definition sample_update :: update_call where
  "sample_update =
     \<lparr> upd_caller = PublicKey [6],
       upd_config = sample_config,
       upd_manifest = manifest_of sample_addressing sample_call,
       upd_token_account = recipient_account_of sample_addressing sample_call,
       upd_hash = replicate 32 1,
       upd_uri = ascii_bytes ''https://example.com/level-v2.json'',
       upd_is_active = False \<rparr>"

definition emptied_ledger :: ledger where
  "emptied_ledger =
     sample_updatable_ledger \<lparr> token_accounts :=
       [recipient_account_of sample_addressing sample_call \<mapsto>
          \<lparr> holder = PublicKey [6], token_mint = mint_of sample_addressing sample_call,
            amount = 0 \<rparr>] \<rparr>"

section \<open>Deserialising the manifest creator\<close>

lemma replicate_takeWhile_zero:
  "takeWhile (\<lambda>b. b = (0::byte)) v = replicate (length (takeWhile (\<lambda>b. b = 0) v)) 0"
  by (induction v) auto

lemma length_dropWhile_plus:
  "length (takeWhile P v) + length (dropWhile P v) = length v"
  by (induction v) auto

lemma new_PublicKey_32:
  assumes "length v = 32"
  shows "new_PublicKey v = Inr (PublicKey v)"
proof -
  let ?bn = "dropWhile (\<lambda>b. b = 0) v"
  let ?z = "takeWhile (\<lambda>b. b = 0) v"
  have len: "length ?z + length ?bn = 32"
    using assms length_dropWhile_plus [of "\<lambda>b. b = 0" v] by simp
  then have pad: "32 - length ?bn = length ?z" by simp
  have "replicate (length ?z) 0 @ ?bn = ?z @ ?bn"
    using replicate_takeWhile_zero [of v] by simp
  then have "replicate (32 - length ?bn) 0 @ ?bn = v"
    using pad by simp
  moreover have "\<not> length ?bn > 32" using len by simp
  ultimately show ?thesis
    by (simp add: new_PublicKey_def PUBLIC_KEY_LENGTH_def Let_def)
qed

lemma MANIFEST_CREATOR_OFFSET_value: "MANIFEST_CREATOR_OFFSET = 248"
  by (simp add: MANIFEST_CREATOR_OFFSET_def ACCOUNT_DISCRIMINATOR_LENGTH_def PUBKEY_LENGTH_def
      U64_LENGTH_def U8_LENGTH_def MANIFEST_HASH_LENGTH_def MANIFEST_MAX_URI_LENGTH_def
      MANIFEST_URI_PADDING_LENGTH_def MANIFEST_URI_LENGTH_FIELD_LENGTH_def)

lemma MANIFEST_CREATOR_END_value: "MANIFEST_CREATOR_END = 280"
  by (simp add: MANIFEST_CREATOR_END_def MANIFEST_CREATOR_OFFSET_value PUBKEY_LENGTH_def)

text \<open>
  Claim C8.  The creator field starts at offset
  8 + 32 + 8 + 32 + 5 * 1 + 32 + 128 + 1 + 2 = 248.  For every buffer of at least 280
  bytes \<open>deserializeManifestCreator\<close> returns the public key made of bytes 248..280
  (32 bytes, given back by \<open>toBuffer\<close>); it throws when the data is missing and when
  the buffer has fewer than 280 bytes.
\<close>

theorem deserializeManifestCreator_spec:
  "MANIFEST_CREATOR_OFFSET = 8 + 32 + 8 + 32 + (1 + 1 + 1 + 1 + 1) + 32 + 128 + 1 + 2
   \<and> (280 \<le> length b \<longrightarrow>
        deserializeManifestCreator (Some b) = Inr (PublicKey (take 32 (drop 248 b)))
        \<and> length (take 32 (drop 248 b)) = 32
        \<and> (\<forall>i < 32. take 32 (drop 248 b) ! i = b ! (248 + i)))
   \<and> (length b < 280 \<longrightarrow> deserializeManifestCreator (Some b) = Inl ManifestDataTooSmall)
   \<and> deserializeManifestCreator None = Inl ManifestDataMissing"
proof (intro conjI impI)
  show "MANIFEST_CREATOR_OFFSET = 8 + 32 + 8 + 32 + (1 + 1 + 1 + 1 + 1) + 32 + 128 + 1 + 2"
    by (simp add: MANIFEST_CREATOR_OFFSET_value)
next
  assume long: "280 \<le> length b"
  then have len: "length (take 32 (drop 248 b)) = 32" by simp
  show "deserializeManifestCreator (Some b) = Inr (PublicKey (take 32 (drop 248 b)))"
    using long new_PublicKey_32 [OF len]
    by (simp add: deserializeManifestCreator_def MANIFEST_CREATOR_END_value
        MANIFEST_CREATOR_OFFSET_value subarray_def)
  show "length (take 32 (drop 248 b)) = 32" by (rule len)
  show "\<forall>i < 32. take 32 (drop 248 b) ! i = b ! (248 + i)"
    using long by simp
next
  assume "length b < 280"
  then show "deserializeManifestCreator (Some b) = Inl ManifestDataTooSmall"
    by (simp add: deserializeManifestCreator_def MANIFEST_CREATOR_END_value)
next
  show "deserializeManifestCreator None = Inl ManifestDataMissing"
    by (simp add: deserializeManifestCreator_def)
qed

theorem deserializeManifestCreator_spec_witness:
  "deserializeManifestCreator (Some (replicate 248 1 @ replicate 32 7 @ replicate 8 0))
     = Inr (PublicKey (replicate 32 7))
   \<and> deserializeManifestCreator (Some (replicate 279 1)) = Inl ManifestDataTooSmall"
  using deserializeManifestCreator_spec [of "replicate 248 1 @ replicate 32 7 @ replicate 8 0"]
    deserializeManifestCreator_spec [of "replicate 279 1"]
  by simp

section \<open>The manifest hash argument\<close>

lemma unat_hex_digit:
  "n < 16 \<Longrightarrow> unat (hex_digit up n) = (if n < 10 then 48 + n else if up then 55 + n else 87 + n)"
  unfolding hex_digit_def by (simp only: unat_of_nat split: if_splits) auto

lemma hex_digit_is_hex: "n < 16 \<Longrightarrow> is_hex_digit (hex_digit up n)"
  by (auto simp: is_hex_digit_def unat_hex_digit Let_def)

lemma hex_value_hex_digit: "n < 16 \<Longrightarrow> hex_value (hex_digit up n) = Some n"
  by (auto simp: hex_value_def unat_hex_digit Let_def)

lemma hex_digit_not_ws: "is_hex_digit u \<Longrightarrow> \<not> is_js_whitespace u"
  by (auto simp: is_hex_digit_def is_js_whitespace_def Let_def)

lemma unat_byte_less: "unat (b::byte) < 256"
proof -
  have "unat b < 2 ^ LENGTH(8)" by (rule unsigned_less)
  then show ?thesis by simp
qed

lemma byte_nibbles: "unat (b::byte) div 16 < 16" "unat (b::byte) mod 16 < 16"
  using unat_byte_less [of b] by auto

lemma byte_of_nibbles: "(of_nat (16 * (unat b div 16) + unat b mod 16) :: byte) = b"
  by simp

lemma length_hex_render: "length (hex_render up i b) = 2 * length b"
  by (induction b arbitrary: i) auto

lemma hex_render_all_hex: "list_all is_hex_digit (hex_render up i b)"
  by (induction b arbitrary: i) (auto simp: hex_digit_is_hex byte_nibbles)

lemma Buffer_from_hex_render: "Buffer_from_hex (hex_render up i b) = b"
  by (induction b arbitrary: i) (auto simp: hex_value_hex_digit byte_nibbles)

lemma trim_core:
  assumes "m \<noteq> []" "\<not> is_js_whitespace (hd m)" "\<not> is_js_whitespace (last m)"
    "list_all is_js_whitespace ws1" "list_all is_js_whitespace ws2"
  shows "trim (ws1 @ m @ ws2) = m"
proof -
  have a: "dropWhile is_js_whitespace (ws1 @ m @ ws2) = m @ ws2"
    using assms by (cases m) (auto simp: dropWhile_append3 list_all_iff dropWhile_append)
  have b: "dropWhile is_js_whitespace (rev ws2 @ rev m) = rev m"
    using assms by (cases m rule: rev_cases) (auto simp: list_all_iff dropWhile_append)
  show ?thesis by (simp add: trim_def a b)
qed

lemma js_0x: "js ''0x'' = [48, 120]" "js ''0X'' = [48, 88]"
  by (simp_all add: js_def)

lemma zero_digit_not_ws: "\<not> is_js_whitespace 48" 
  by (simp add: is_js_whitespace_def)

lemma hex_digit_not_x: "is_hex_digit u \<Longrightarrow> u \<noteq> 120 \<and> u \<noteq> 88"
  by (auto simp: is_hex_digit_def Let_def)

lemma strip_0x_render:
  assumes "b \<noteq> []"
  shows "strip_0x (hex_render up i b) = hex_render up i b"
proof -
  obtain x xs where b: "b = x # xs" using assms by (cases b) auto
  have "is_hex_digit (hex_digit (up (i + 1)) (unat x mod 16))"
    by (simp add: hex_digit_is_hex byte_nibbles)
  then have "hex_digit (up (i + 1)) (unat x mod 16) \<noteq> 120 \<and> hex_digit (up (i + 1)) (unat x mod 16) \<noteq> 88"
    by (rule hex_digit_not_x)
  then show ?thesis
    by (simp add: b strip_0x_def startsWith_def js_0x)
qed

lemma strip_0x_prefixed:
  "pre = js ''0x'' \<or> pre = js ''0X'' \<Longrightarrow> strip_0x (pre @ r) = r"
  by (auto simp: strip_0x_def startsWith_def js_0x)

lemma last_hex_render:
  "b \<noteq> [] \<Longrightarrow> is_hex_digit (last (hex_render up i b))"
  using hex_render_all_hex [of up i b] length_hex_render [of up i b]
  by (cases "hex_render up i b" rule: rev_cases) (auto simp: list_all_iff)

lemma hd_hex_render:
  "b \<noteq> [] \<Longrightarrow> is_hex_digit (hd (hex_render up i b))"
  by (cases b) (auto simp: hex_digit_is_hex byte_nibbles)

text \<open>
  Claim C9.  \<open>parseManifestHash\<close> inverts hexadecimal rendering: for every buffer \<open>b\<close> of
  32 bytes, every choice of case for each of its 64 digits, with or without the prefix
  \<open>0x\<close> or \<open>0X\<close>, and with any white space around, it returns exactly \<open>b\<close>.  It
  throws for every string whose trimmed form, the prefix removed, is not 64 hexadecimal
  digits.
\<close>

theorem parseManifestHash_roundtrip:
  "(length b = 32 \<and> list_all is_js_whitespace ws1 \<and> list_all is_js_whitespace ws2
      \<and> (pre = [] \<or> pre = js ''0x'' \<or> pre = js ''0X'')
     \<longrightarrow> parseManifestHash (Some (ws1 @ pre @ hex_render up 0 b @ ws2)) = Inr b)
   \<and> (\<not> (length (strip_0x (trim s)) = 64 \<and> list_all is_hex_digit (strip_0x (trim s)))
     \<longrightarrow> isl (parseManifestHash (Some s)))"
proof (intro conjI impI)
  assume h: "length b = 32 \<and> list_all is_js_whitespace ws1 \<and> list_all is_js_whitespace ws2
      \<and> (pre = [] \<or> pre = js ''0x'' \<or> pre = js ''0X'')"
  let ?r = "hex_render up 0 b"
  let ?m = "pre @ ?r"
  have bne: "b \<noteq> []" using h by auto
  have rne: "?r \<noteq> []" using length_hex_render [of up 0 b] h by auto
  have hd_m: "\<not> is_js_whitespace (hd ?m)"
    using h hd_hex_render [OF bne, of up 0] rne
    by (auto simp: js_0x zero_digit_not_ws hex_digit_not_ws)
  have last_m: "\<not> is_js_whitespace (last ?m)"
    using last_hex_render [OF bne, of up 0] rne by (simp add: hex_digit_not_ws)
  have "trim (ws1 @ ?m @ ws2) = ?m"
    using trim_core [of ?m ws1 ws2] rne hd_m last_m h by simp
  then have t: "trim (ws1 @ pre @ ?r @ ws2) = ?m" by simp
  have s: "strip_0x ?m = ?r"
    using h strip_0x_render [OF bne, of up 0] strip_0x_prefixed [of pre ?r] by auto
  have ne: "ws1 @ pre @ ?r @ ws2 \<noteq> []" using rne by simp
  show "parseManifestHash (Some (ws1 @ pre @ ?r @ ws2)) = Inr b"
    using h rne
    by (simp add: parseManifestHash_def t s length_hex_render hex_render_all_hex
        Buffer_from_hex_render Let_def)
next
  assume "\<not> (length (strip_0x (trim s)) = 64 \<and> list_all is_hex_digit (strip_0x (trim s)))"
  then show "isl (parseManifestHash (Some s))"
    by (auto simp: parseManifestHash_def Let_def)
qed

theorem parseManifestHash_roundtrip_witness:
  "parseManifestHash (Some (js '' 0x'' @ hex_render (\<lambda>i. even i) 0 (replicate 32 171) @ js ''  ''))
     = Inr (replicate 32 171)
   \<and> isl (parseManifestHash (Some (js ''0xabc'')))"
proof -
  have ws: "list_all is_js_whitespace (js '' '')" "list_all is_js_whitespace (js ''  '')"
    by (simp_all add: js_def is_js_whitespace_def)
  have sp: "js '' 0x'' = js '' '' @ js ''0x''" by (simp add: js_def)
  have bad: "\<not> (length (strip_0x (trim (js ''0xabc''))) = 64
               \<and> list_all is_hex_digit (strip_0x (trim (js ''0xabc''))))"
    by (simp add: js_def trim_def strip_0x_def startsWith_def is_js_whitespace_def)
  show ?thesis
    using parseManifestHash_roundtrip [of "replicate 32 171" "js '' ''" "js ''  ''" "js ''0x''"
        "\<lambda>i. even i" "js ''0xabc''"] ws bad
    by (simp add: sp)
qed

section \<open>Creators and limits of a mint\<close>




lemma totalShare_Nil: "totalShare [] = 0"
  by (simp add: totalShare_def)



























section \<open>Derived addresses\<close>

lemma le_value_bytes:
  "le_value (map (\<lambda>i. of_int (v div 256 ^ (k + i))) [0..<n]) = (v div 256 ^ k) mod 256 ^ n"
proof (induction n arbitrary: k)
  case 0
  then show ?case by simp
next
  case (Suc n)
  have split: "map (\<lambda>i. (of_int (v div 256 ^ (k + i)) :: byte)) [0..<Suc n]
      = of_int (v div 256 ^ k) # map (\<lambda>i. of_int (v div 256 ^ (Suc k + i))) [0..<n]"
    by (simp add: upt_conv_Cons map_Suc_upt [symmetric] del: upt_Suc)
  have u: "uint (of_int (v div 256 ^ k) :: byte) = (v div 256 ^ k) mod 256"
    by (simp add: uint_word_of_int take_bit_eq_mod)
  have d: "v div 256 ^ Suc k = (v div 256 ^ k) div 256"
  proof -
    have "v div 256 ^ Suc k = v div (256 ^ k * 256)" by (simp add: mult.commute)
    also have "\<dots> = (v div 256 ^ k) div 256" by (rule zdiv_zmult2_eq) simp
    finally show ?thesis .
  qed
  let ?x = "v div 256 ^ k"
  have "le_value (map (\<lambda>i. (of_int (v div 256 ^ (k + i)) :: byte)) [0..<Suc n])
      = ?x mod 256 + 256 * ((v div 256 ^ Suc k) mod 256 ^ n)"
    by (simp only: split le_value.simps u Suc.IH)
  also have "\<dots> = ?x mod 256 + 256 * ((?x div 256) mod 256 ^ n)"
    by (simp only: d)
  also have "\<dots> = ?x mod (256 * 256 ^ n)"
    using zmod_zmult2_eq [of "256 ^ n" "v div 256 ^ k" 256] by simp
  finally show ?case by simp
qed

lemma writeBigUInt64LE_ok:
  assumes "0 \<le> v" "v < 2 ^ 64"
  shows "\<exists>b. writeBigUInt64LE v = Inr b \<and> length b = 8 \<and> le_value b = v"
proof -
  have "le_value (map (\<lambda>i. of_int (v div 256 ^ (0 + i))) [0..<8]) = (v div 256 ^ 0) mod 256 ^ 8"
    by (rule le_value_bytes)
  then have "le_value (map (\<lambda>i. of_int (v div 256 ^ i)) [0..<8]) = v"
    using assms by simp
  then show ?thesis using assms by (simp add: writeBigUInt64LE_def)
qed

text \<open>
  Claim C6.  Every address is the library's derivation applied to fixed seed labels and
  the parent: the config address to \<open>config\<close> and the namespace, the auth address to
  \<open>auth\<close> and the config, the manifest address to \<open>object_manifest\<close>, the config and
  the object id written as 8 bytes, least significant first (for every object id of 64
  bits; the bytes read back give the id), the object mint address to \<open>object_mint\<close> and
  the manifest.  Equal inputs give equal addresses.
\<close>

theorem pda_derivations:
  "deriveConfigPda fpa ns = fpa [ascii_bytes ''config'', toBuffer ns] OGAL_PROGRAM_ID
   \<and> deriveAuthPda fpa cfg = fpa [ascii_bytes ''auth'', toBuffer cfg] OGAL_PROGRAM_ID
   \<and> (0 \<le> oid \<and> oid < 2 ^ 64 \<longrightarrow>
        (\<exists>b. deriveManifestPda fpa cfg oid
               = Inr (fpa [ascii_bytes ''object_manifest'', toBuffer cfg, b] OGAL_PROGRAM_ID)
             \<and> length b = 8 \<and> le_value b = oid))
   \<and> deriveObjectMintPda fpa m = fpa [ascii_bytes ''object_mint'', toBuffer m] OGAL_PROGRAM_ID
   \<and> (ns = ns' \<longrightarrow> fst (deriveConfigPda fpa ns) = fst (deriveConfigPda fpa ns'))
   \<and> (cfg = cfg' \<longrightarrow> fst (deriveAuthPda fpa cfg) = fst (deriveAuthPda fpa cfg'))
   \<and> (cfg = cfg' \<and> oid = oid' \<longrightarrow>
        map_sum id fst (deriveManifestPda fpa cfg oid) = map_sum id fst (deriveManifestPda fpa cfg' oid'))
   \<and> (m = m' \<longrightarrow> fst (deriveObjectMintPda fpa m) = fst (deriveObjectMintPda fpa m'))"
proof (intro conjI impI)
  assume "0 \<le> oid \<and> oid < 2 ^ 64"
  then obtain b where "writeBigUInt64LE oid = Inr b" "length b = 8" "le_value b = oid"
    using writeBigUInt64LE_ok [of oid] by auto
  then show "\<exists>b. deriveManifestPda fpa cfg oid
               = Inr (fpa [ascii_bytes ''object_manifest'', toBuffer cfg, b] OGAL_PROGRAM_ID)
             \<and> length b = 8 \<and> le_value b = oid"
    by (auto simp: deriveManifestPda_def MANIFEST_SEED_def)
qed (simp_all add: deriveConfigPda_def deriveAuthPda_def deriveObjectMintPda_def MINT_SEED_def)

theorem pda_derivations_witness:
  "(0::int) \<le> 7 \<and> (7::int) < 2 ^ 64
   \<and> (\<exists>b. deriveManifestPda sample_fpa OGAL_PROGRAM_ID 7
            = Inr (sample_fpa [ascii_bytes ''object_manifest'', toBuffer OGAL_PROGRAM_ID, b]
                 OGAL_PROGRAM_ID)
          \<and> length b = 8 \<and> le_value b = 7)
   \<and> fst (deriveConfigPda sample_fpa OGAL_PROGRAM_ID) = fst (deriveConfigPda sample_fpa OGAL_PROGRAM_ID)"
  using pda_derivations [of sample_fpa OGAL_PROGRAM_ID OGAL_PROGRAM_ID 7 OGAL_PROGRAM_ID
      OGAL_PROGRAM_ID OGAL_PROGRAM_ID 7 OGAL_PROGRAM_ID]
  by simp

section \<open>Rotation of the collection authority\<close>








section \<open>Namespace migration\<close>

text \<open>
  Claim C10.  When the old and the new namespace are the same key, \<open>main\<close> of
  migrate-namespace throws \<open>The new namespace must differ from the existing namespace.\<close>
  having loaded no key file, derived no address and called the node not once.  When
  they differ that error is not thrown and the first thing done is to load the key file.
\<close>

theorem migrate_refuses_same_namespace:
  "(PublicKey_of_string w (mg_old_namespace argv) = Some old
      \<and> PublicKey_of_string w (mg_new_namespace argv) = Some new \<and> equals old new
     \<longrightarrow> migrate_namespace_main w sha256 node argv = (Inl (Raised NamespaceMustDiffer), []))
   \<and> (PublicKey_of_string w (mg_old_namespace argv) = Some old
      \<and> PublicKey_of_string w (mg_new_namespace argv) = Some new \<and> \<not> equals old new
     \<longrightarrow> fst (migrate_namespace_main w sha256 node argv) \<noteq> Inl (Raised NamespaceMustDiffer)
         \<and> take 1 (snd (migrate_namespace_main w sha256 node argv))
             = [LoadKeypair (mg_authority_keypair argv)])"
  by (auto simp: migrate_namespace_main_def Let_def split: option.splits sum.splits)

theorem migrate_refuses_same_namespace_witness:
  "migrate_namespace_main sample_world sample_sha256 sample_node same_namespace_argv
     = (Inl (Raised NamespaceMustDiffer), [])
   \<and> take 1 (snd (migrate_namespace_main sample_world sample_sha256 sample_node new_namespace_argv))
       = [LoadKeypair (js ''authority.json'')]"
proof -
  have a: "PublicKey_of_string sample_world (mg_old_namespace same_namespace_argv) = Some sample_namespace
      \<and> PublicKey_of_string sample_world (mg_new_namespace same_namespace_argv) = Some sample_namespace
      \<and> equals sample_namespace sample_namespace"
    by (simp add: sample_world_def same_namespace_argv_def equals_def)
  have b: "PublicKey_of_string sample_world (mg_old_namespace new_namespace_argv) = Some sample_namespace
      \<and> PublicKey_of_string sample_world (mg_new_namespace new_namespace_argv) = Some sample_collection_mint
      \<and> \<not> equals sample_namespace sample_collection_mint"
    by (simp add: sample_world_def new_namespace_argv_def equals_def js_def
        sample_namespace_def sample_collection_mint_def)
  have c: "mg_authority_keypair new_namespace_argv = js ''authority.json''"
    by (simp add: new_namespace_argv_def)
  show ?thesis
    using migrate_refuses_same_namespace [of sample_world same_namespace_argv
        sample_namespace sample_namespace sample_sha256 sample_node]
      migrate_refuses_same_namespace [of sample_world new_namespace_argv
        sample_namespace sample_collection_mint sample_sha256 sample_node]
      a b c
    by simp
qed

section \<open>The mint pipeline of the program\<close>

lemma and_then_Inr: "and_then r f = Inr y \<longleftrightarrow> (\<exists>x. r = Inr x \<and> f x = Inr y)"
  by (cases r) (auto simp: and_then_def)

lemma manifest_ensure_present:
  "manifests (fst p) (manifest_of A c) = Some m \<Longrightarrow> manifest_ensure A c p = Inr q \<Longrightarrow> q = p"
  by (auto simp: manifest_ensure_def split: if_splits)

lemma mint_ensure_present:
  "mints (fst p) (mint_of A c) \<noteq> None \<Longrightarrow> mint_ensure A c p = Inr q \<Longrightarrow> q = p"
  by (auto simp: mint_ensure_def Let_def split: if_splits)

lemma token_account_ensure_frame:
  "token_account_ensure A c p = Inr q \<Longrightarrow>
     manifests (fst q) = manifests (fst p) \<and> mints (fst q) = mints (fst p)
     \<and> metadata_records (fst q) = metadata_records (fst p)
     \<and> master_records (fst q) = master_records (fst p)
     \<and> anchors (fst q) = anchors (fst p)
     \<and> configurations (fst q) = configurations (fst p)
     \<and> (snd q = snd p \<or> snd q = snd p @ [CreateTokenAccount])"
  by (auto simp: token_account_ensure_def split: option.splits if_splits)

lemma token_issuance_frame:
  "token_issuance A c p = Inr q \<Longrightarrow>
     manifests (fst q) = manifests (fst p) \<and> dom (mints (fst q)) = dom (mints (fst p))
     \<and> metadata_records (fst q) = metadata_records (fst p)
     \<and> master_records (fst q) = master_records (fst p)
     \<and> anchors (fst q) = anchors (fst p)
     \<and> configurations (fst q) = configurations (fst p)
     \<and> snd q = snd p @ [IssueToken]
     \<and> mints (fst q) (mint_of A c) \<noteq> None"
  by (auto simp: token_issuance_def split: option.splits if_splits)

lemma bookkeeping_minted_frame:
  "bookkeeping A c p = Inr q \<Longrightarrow> was_minted A c (fst p) \<Longrightarrow>
     manifests (fst q) = manifests (fst p) \<and> mints (fst q) = mints (fst p)
     \<and> metadata_records (fst q) = metadata_records (fst p)
     \<and> master_records (fst q) = master_records (fst p)
     \<and> anchors (fst q) = anchors (fst p)
     \<and> snd q = snd p @ [Bookkeeping]"
  by (auto simp: bookkeeping_def was_minted_def fun_upd_idem split: option.splits)

lemma mint_ensure_frame:
  "mint_ensure A c p = Inr q \<Longrightarrow>
     manifests (fst q) = manifests (fst p)
     \<and> metadata_records (fst q) = metadata_records (fst p)
     \<and> master_records (fst q) = master_records (fst p)
     \<and> anchors (fst q) = anchors (fst p)
     \<and> (q = p \<or> (snd q = snd p @ [CreateMint] \<and> mints (fst p) (mint_of A c) = None))"
  by (auto simp: mint_ensure_def Let_def split: option.splits if_splits)

lemma remint:
  assumes m: "was_minted A c s" and r: "mint_object_nft A ext c s = Inr (s', tr)"
  shows "manifests s' = manifests s
     \<and> metadata_records s' = metadata_records s \<and> master_records s' = master_records s
     \<and> anchors s' = anchors s
     \<and> set tr \<subseteq> {CreateMint, CreateTokenAccount, IssueToken, Bookkeeping}
     \<and> (CreateMint \<in> set tr \<longrightarrow> mints s (mint_of A c) = None)
     \<and> (mints s (mint_of A c) \<noteq> None \<longrightarrow> dom (mints s') = dom (mints s))"
proof -
  from m obtain mf where mf: "manifests s (manifest_of A c) = Some mf" "minted mf"
    by (auto simp: was_minted_def split: option.splits)
  from r obtain p2 p3 p4 p5 p6 p7 p8 where
    s2: "manifest_ensure A c (s, []) = Inr p2" and
    s3: "mint_ensure A c p2 = Inr p3" and
    s4: "token_account_ensure A c p3 = Inr p4" and
    s5: "first_mint_only (was_minted A c (fst p4)) (create_metadata A ext c) p4 = Inr p5" and
    s6: "token_issuance A c p5 = Inr p6" and
    s7: "first_mint_only (was_minted A c (fst p4)) (create_master_record A ext c) p6 = Inr p7" and
    s8: "first_mint_only (was_minted A c (fst p4)) (verify_collection ext c) p7 = Inr p8" and
    s9: "bookkeeping A c p8 = Inr (s', tr)"
    unfolding mint_object_nft_def and_then_Inr by blast
  have p2: "p2 = (s, [])" using manifest_ensure_present [OF _ s2] mf by simp
  note f3 = mint_ensure_frame [OF s3]
  note f4 = token_account_ensure_frame [OF s4]
  have w: "was_minted A c (fst p4)" using f3 f4 mf p2 by (simp add: was_minted_def)
  have p5: "p5 = p4" using s5 w by (simp add: first_mint_only_def)
  note f6 = token_issuance_frame [OF s6]
  have p7: "p7 = p6" using s7 w by (simp add: first_mint_only_def)
  have p8: "p8 = p6" using s8 w p7 by (simp add: first_mint_only_def)
  have w8: "was_minted A c (fst p8)" using w f6 p5 p8 by (simp add: was_minted_def)
  note f9 = bookkeeping_minted_frame [OF s9 w8]
  have tr3: "snd p3 = [] \<or> (snd p3 = [CreateMint] \<and> mints s (mint_of A c) = None)"
    using f3 p2 by auto
  have tr: "tr = snd p3 @ [IssueToken, Bookkeeping]
            \<or> tr = snd p3 @ [CreateTokenAccount, IssueToken, Bookkeeping]"
    using f4 f6 f9 p5 p8 by auto
  have frame: "manifests s' = manifests s
     \<and> metadata_records s' = metadata_records s \<and> master_records s' = master_records s
     \<and> anchors s' = anchors s"
    using f3 f4 f6 f9 p2 p5 p8 by simp
  have steps: "set tr \<subseteq> {CreateMint, CreateTokenAccount, IssueToken, Bookkeeping}"
    using tr tr3 by auto
  have created: "CreateMint \<in> set tr \<longrightarrow> mints s (mint_of A c) = None"
    using tr tr3 by auto
  have kept: "mints s (mint_of A c) \<noteq> None \<longrightarrow> dom (mints s') = dom (mints s)"
  proof
    assume "mints s (mint_of A c) \<noteq> None"
    then have "p3 = (s, [])" using mint_ensure_present [OF _ s3] p2 by simp
    then show "dom (mints s') = dom (mints s)" using f4 f6 f9 p5 p8 by simp
  qed
  from frame steps created kept show ?thesis by blast
qed

lemma first_mint_only_cases:
  "first_mint_only b f p = Inr q \<Longrightarrow> q = p \<or> f p = Inr q"
  by (auto simp: first_mint_only_def split: if_splits)

lemma create_master_record_frame:
  "create_master_record A ext c p = Inr q \<Longrightarrow>
     manifests (fst q) = manifests (fst p) \<and> mints (fst q) = mints (fst p)
     \<and> configurations (fst q) = configurations (fst p)"
  by (auto simp: create_master_record_def split: if_splits)

lemma verify_collection_frame:
  "verify_collection ext c p = Inr q \<Longrightarrow>
     manifests (fst q) = manifests (fst p) \<and> mints (fst q) = mints (fst p)
     \<and> configurations (fst q) = configurations (fst p)"
  by (auto simp: verify_collection_def split: if_splits option.splits collection_anchor.splits)

lemma bookkeeping_sets_minted:
  "bookkeeping A c p = Inr q \<Longrightarrow>
     (\<exists>m. manifests (fst q) (manifest_of A c) = Some m \<and> minted m)
     \<and> mints (fst q) = mints (fst p)"
  by (auto simp: bookkeeping_def split: option.splits)

lemma mint_establishes:
  assumes r: "mint_object_nft A ext c s = Inr (s', tr)"
  shows "was_minted A c s' \<and> mints s' (mint_of A c) \<noteq> None"
proof -
  from r obtain p5 p6 p7 p8 b where
    s6: "token_issuance A c p5 = Inr p6" and
    s7: "first_mint_only b (create_master_record A ext c) p6 = Inr p7" and
    s8: "first_mint_only b (verify_collection ext c) p7 = Inr p8" and
    s9: "bookkeeping A c p8 = Inr (s', tr)"
    unfolding mint_object_nft_def and_then_Inr by blast
  have "mints (fst p6) (mint_of A c) \<noteq> None"
    using token_issuance_frame [OF s6] by simp
  then have "mints (fst p7) (mint_of A c) \<noteq> None"
    using first_mint_only_cases [OF s7] create_master_record_frame [of A ext c p6 p7] by auto
  then have "mints (fst p8) (mint_of A c) \<noteq> None"
    using first_mint_only_cases [OF s8] verify_collection_frame [of ext c p7 p8] by auto
  then show ?thesis
    using bookkeeping_sets_minted [OF s9] by (auto simp: was_minted_def)
qed

lemmas sample_chain_defs =
  sample_call_def sample_ledger_def sample_addressing_def sample_config_def sample_key_def
  sample_collection_def all_ok_def manifest_of_def mint_of_def recipient_account_of_def

lemma sample_first_mint:
  "mint_object_nft sample_addressing all_ok sample_call sample_ledger =
     Inr (sample_minted_ledger,
          [CreateManifest, CreateMint, CreateTokenAccount, CreateMetadata, IssueToken,
           CreateMasterRecord, VerifySizedCollection, Bookkeeping])"
  by (simp add: mint_object_nft_def and_then_def pause_check_def manifest_ensure_def
      mint_ensure_def token_account_ensure_def first_mint_only_def was_minted_def
      create_metadata_def token_issuance_def create_master_record_def verify_collection_def
      bookkeeping_def sample_chain_defs sample_minted_ledger_def sample_manifest_def Let_def)

lemma sample_second_mint:
  "\<exists>s2. mint_object_nft sample_addressing all_ok sample_call sample_minted_ledger
          = Inr (s2, [IssueToken, Bookkeeping])"
  by (simp add: mint_object_nft_def and_then_def pause_check_def manifest_ensure_def
      mint_ensure_def token_account_ensure_def first_mint_only_def was_minted_def
      create_metadata_def token_issuance_def create_master_record_def verify_collection_def
      bookkeeping_def sample_chain_defs sample_minted_ledger_def sample_manifest_def Let_def)

lemma same_object:
  "call_config c' = call_config c \<Longrightarrow> call_object_id c' = call_object_id c \<Longrightarrow>
     was_minted A c' s = was_minted A c s \<and> mint_of A c' = mint_of A c"
  by (simp add: was_minted_def manifest_of_def mint_of_def)

text \<open>
  Claim C1.  For every manifest whose \<open>minted\<close> flag is already true, a mint for its
  object that goes through runs none of the first-mint steps (metadata creation,
  master-record creation, either collection verification), creates no manifest, and
  leaves every manifest, the external metadata and master records and the collection
  anchors as they were; it creates a mint only if the object has none, so that no second
  mint is created and the set of mints stays as it was.  A mint that goes through leaves
  its object with the flag set and its mint in place; so a second mint for the same
  configuration and object id after a first that succeeded, whatever its other
  arguments, does all of this.
\<close>

theorem remint_runs_no_first_mint_step:
  "(was_minted A c s \<and> mint_object_nft A ext c s = Inr (s', tr) \<longrightarrow>
        set tr \<inter> first_mint_steps = {} \<and> CreateManifest \<notin> set tr
        \<and> manifests s' = manifests s
        \<and> metadata_records s' = metadata_records s \<and> master_records s' = master_records s
        \<and> anchors s' = anchors s
        \<and> (CreateMint \<in> set tr \<longrightarrow> mints s (mint_of A c) = None)
        \<and> (mints s (mint_of A c) \<noteq> None \<longrightarrow> dom (mints s') = dom (mints s)))
   \<and> (mint_object_nft A ext c s = Inr (s', tr) \<longrightarrow>
        was_minted A c s' \<and> mints s' (mint_of A c) \<noteq> None)
   \<and> (mint_object_nft A ext c s = Inr (s1, t1)
        \<and> call_config c' = call_config c \<and> call_object_id c' = call_object_id c
        \<and> mint_object_nft A ext' c' s1 = Inr (s2, t2) \<longrightarrow>
        set t2 \<inter> first_mint_steps = {} \<and> CreateMint \<notin> set t2 \<and> CreateManifest \<notin> set t2
        \<and> dom (mints s2) = dom (mints s1) \<and> manifests s2 = manifests s1
        \<and> metadata_records s2 = metadata_records s1 \<and> master_records s2 = master_records s1
        \<and> anchors s2 = anchors s1)"
proof (intro conjI impI)
  assume h: "was_minted A c s \<and> mint_object_nft A ext c s = Inr (s', tr)"
  then have r: "manifests s' = manifests s
     \<and> metadata_records s' = metadata_records s \<and> master_records s' = master_records s
     \<and> anchors s' = anchors s
     \<and> set tr \<subseteq> {CreateMint, CreateTokenAccount, IssueToken, Bookkeeping}
     \<and> (CreateMint \<in> set tr \<longrightarrow> mints s (mint_of A c) = None)
     \<and> (mints s (mint_of A c) \<noteq> None \<longrightarrow> dom (mints s') = dom (mints s))"
    using remint [of A c s ext s' tr] by simp
  from r show "set tr \<inter> first_mint_steps = {}" by (auto simp: first_mint_steps_def)
  from r show "CreateManifest \<notin> set tr" by auto
  from r show "manifests s' = manifests s" by simp
  from r show "metadata_records s' = metadata_records s" by simp
  from r show "master_records s' = master_records s" by simp
  from r show "anchors s' = anchors s" by simp
  { assume "CreateMint \<in> set tr"
    with r show "mints s (mint_of A c) = None" by simp }
  { assume "mints s (mint_of A c) \<noteq> None"
    with r show "dom (mints s') = dom (mints s)" by simp }
next
  assume r: "mint_object_nft A ext c s = Inr (s', tr)"
  from mint_establishes [OF r] show "was_minted A c s'" by simp
  from mint_establishes [OF r] show "mints s' (mint_of A c) \<noteq> None" by simp
next
  assume h: "mint_object_nft A ext c s = Inr (s1, t1)
        \<and> call_config c' = call_config c \<and> call_object_id c' = call_object_id c
        \<and> mint_object_nft A ext' c' s1 = Inr (s2, t2)"
  then have e: "was_minted A c s1 \<and> mints s1 (mint_of A c) \<noteq> None"
    using mint_establishes [of A ext c s s1 t1] by simp
  have so: "was_minted A c' s1 = was_minted A c s1 \<and> mint_of A c' = mint_of A c"
    using h same_object [of c' c A s1] by simp
  have m: "was_minted A c' s1" and mt: "mints s1 (mint_of A c') \<noteq> None"
    using e so by simp_all
  from h have r2: "mint_object_nft A ext' c' s1 = Inr (s2, t2)" by simp
  note r = remint [OF m r2]
  from r mt have nc: "CreateMint \<notin> set t2" by auto
  from r show "set t2 \<inter> first_mint_steps = {}" by (auto simp: first_mint_steps_def)
  from nc show "CreateMint \<notin> set t2" .
  from r show "CreateManifest \<notin> set t2" by auto
  from r mt show "dom (mints s2) = dom (mints s1)" by simp
  from r show "manifests s2 = manifests s1" by simp
  from r show "metadata_records s2 = metadata_records s1" by simp
  from r show "master_records s2 = master_records s1" by simp
  from r show "anchors s2 = anchors s1" by simp
qed

theorem remint_runs_no_first_mint_step_witness:
  "\<exists>s2. mint_object_nft sample_addressing all_ok sample_call sample_ledger
          = Inr (sample_minted_ledger,
                 [CreateManifest, CreateMint, CreateTokenAccount, CreateMetadata, IssueToken,
                  CreateMasterRecord, VerifySizedCollection, Bookkeeping])
      \<and> was_minted sample_addressing sample_call sample_minted_ledger
      \<and> mint_object_nft sample_addressing all_ok sample_call sample_minted_ledger
          = Inr (s2, [IssueToken, Bookkeeping])
      \<and> manifests s2 = manifests sample_minted_ledger
      \<and> dom (mints s2) = dom (mints sample_minted_ledger)"
proof -
  obtain s2 where s2: "mint_object_nft sample_addressing all_ok sample_call sample_minted_ledger
          = Inr (s2, [IssueToken, Bookkeeping])"
    using sample_second_mint by blast
  note t = remint_runs_no_first_mint_step [of sample_addressing sample_call sample_ledger all_ok
      sample_minted_ledger "[CreateManifest, CreateMint, CreateTokenAccount, CreateMetadata,
        IssueToken, CreateMasterRecord, VerifySizedCollection, Bookkeeping]"
      sample_minted_ledger "[CreateManifest, CreateMint, CreateTokenAccount, CreateMetadata,
        IssueToken, CreateMasterRecord, VerifySizedCollection, Bookkeeping]"
      sample_call all_ok s2 "[IssueToken, Bookkeeping]"]
  show ?thesis using t sample_first_mint s2 by blast
qed

section \<open>Manifest updates\<close>

text \<open>
  Claim C2.  \<open>update_object_manifest\<close> fails when there is no manifest, when the token
  account presented does not exist, does not hold the mint of the manifest, or holds a
  balance of zero.  When it succeeds, the manifest is the old one with the hash, the URI
  and the active flag of the call: object id, config, mint and creator (and the minted
  and initialized flags) are as before, every other manifest and account is untouched,
  and one manifest-updated event is added.  It does succeed for the holder of the token
  on an initialized manifest of the configuration with a URI within the limit.
\<close>

theorem update_ownership_gate:
  "(manifests s (upd_manifest c) = None \<longrightarrow> isl (update_object_manifest c s))
   \<and> (manifests s (upd_manifest c) = Some m
        \<and> (token_accounts s (upd_token_account c) = None
            \<or> (\<exists>t. token_accounts s (upd_token_account c) = Some t
                   \<and> (token_mint t \<noteq> mint m \<or> amount t = 0)))
       \<longrightarrow> isl (update_object_manifest c s))
   \<and> (manifests s (upd_manifest c) = Some m \<and> update_object_manifest c s = Inr s' \<longrightarrow>
        manifests s' (upd_manifest c)
          = Some (m \<lparr> manifest_hash := upd_hash c, metadata_uri := upd_uri c,
                      is_active := upd_is_active c \<rparr>)
        \<and> (\<forall>m'. manifests s' (upd_manifest c) = Some m' \<longrightarrow>
              object_id m' = object_id m \<and> config m' = config m \<and> mint m' = mint m
              \<and> creator m' = creator m \<and> minted m' = minted m \<and> initialized m' = initialized m
              \<and> manifest_hash m' = upd_hash c \<and> metadata_uri m' = upd_uri c
              \<and> is_active m' = upd_is_active c)
        \<and> (\<forall>k. k \<noteq> upd_manifest c \<longrightarrow> manifests s' k = manifests s k)
        \<and> configurations s' = configurations s \<and> mints s' = mints s
        \<and> token_accounts s' = token_accounts s
        \<and> events s' = events s @ [ManifestUpdated (config m) (upd_manifest c) (mint m)
                                     (object_id m) (upd_is_active c)])
   \<and> (manifests s (upd_manifest c) = Some m \<and> token_accounts s (upd_token_account c) = Some t
        \<and> holder t = upd_caller c \<and> token_mint t = mint m \<and> 1 \<le> amount t
        \<and> initialized m \<and> config m = upd_config c \<and> length (upd_uri c) \<le> 128
       \<longrightarrow> \<not> isl (update_object_manifest c s))"
  by (auto simp: update_object_manifest_def MAX_URI_LENGTH_def METADATA_MAX_URI_LENGTH_def
      split: option.splits if_splits)

lemma sample_update_runs:
  "\<exists>s'. update_object_manifest sample_update sample_updatable_ledger = Inr s'"
  by (simp add: update_object_manifest_def sample_update_def sample_updatable_ledger_def
      sample_minted_ledger_def sample_manifest_def sample_chain_defs ascii_bytes_def
      MAX_URI_LENGTH_def METADATA_MAX_URI_LENGTH_def)

theorem update_ownership_gate_witness:
  "isl (update_object_manifest sample_update emptied_ledger)
   \<and> (\<exists>s'. update_object_manifest sample_update sample_updatable_ledger = Inr s'
         \<and> manifests s' (upd_manifest sample_update)
             = Some (sample_manifest \<lparr> initialized := True \<rparr>
                      \<lparr> manifest_hash := upd_hash sample_update,
                        metadata_uri := upd_uri sample_update,
                        is_active := upd_is_active sample_update \<rparr>))"
proof -
  obtain s' where s': "update_object_manifest sample_update sample_updatable_ledger = Inr s'"
    using sample_update_runs by blast
  have m: "manifests sample_updatable_ledger (upd_manifest sample_update)
             = Some (sample_manifest \<lparr> initialized := True \<rparr>)"
    by (simp add: sample_updatable_ledger_def sample_update_def)
  have e: "manifests emptied_ledger (upd_manifest sample_update)
             = Some (sample_manifest \<lparr> initialized := True \<rparr>)
           \<and> (token_accounts emptied_ledger (upd_token_account sample_update) = None
               \<or> (\<exists>t. token_accounts emptied_ledger (upd_token_account sample_update) = Some t
                  \<and> (token_mint t \<noteq> mint (sample_manifest \<lparr> initialized := True \<rparr>) \<or> amount t = 0)))"
    by (simp add: emptied_ledger_def sample_updatable_ledger_def sample_update_def)
  have t1: "isl (update_object_manifest sample_update emptied_ledger)"
    using update_ownership_gate [of emptied_ledger sample_update
        "sample_manifest \<lparr> initialized := True \<rparr>"] e
    by blast
  have t2: "manifests s' (upd_manifest sample_update)
             = Some (sample_manifest \<lparr> initialized := True \<rparr>
                      \<lparr> manifest_hash := upd_hash sample_update,
                        metadata_uri := upd_uri sample_update,
                        is_active := upd_is_active sample_update \<rparr>)"
    using update_ownership_gate [of sample_updatable_ledger sample_update
        "sample_manifest \<lparr> initialized := True \<rparr>" s'] m s'
    by blast
  from t1 t2 s' show ?thesis by blast
qed

section \<open>Initialisation of a namespace\<close>

text \<open>
  Claim C7.  \<open>initialize\<close> fails with the authorization error for every caller that
  is neither the payer nor on the allow-list, creating nothing.  When it succeeds the
  caller was the payer or allow-listed, the namespace had no configuration, and the
  configuration (with the caller as authority, not paused, no objects) and the mint
  authority exist afterwards; a caller who is the payer or allow-listed does succeed on
  a fresh namespace.
\<close>

theorem initialize_requires_payer_or_allowed:
  "(caller \<noteq> payer \<and> caller \<notin> set allowed \<longrightarrow>
        initialize A allowed caller payer ns s = Inl UnauthorizedDeployer)
   \<and> (initialize A allowed caller payer ns s = Inr s' \<longrightarrow>
        (caller = payer \<or> caller \<in> set allowed)
        \<and> configurations s (config_address A ns) = None
        \<and> configurations s' (config_address A ns)
            = Some \<lparr> authority = caller, namespace = ns, paused = False, object_count = 0 \<rparr>
        \<and> mint_authority_address A (config_address A ns) \<in> mint_authorities s')
   \<and> ((caller = payer \<or> caller \<in> set allowed) \<and> configurations s (config_address A ns) = None
        \<longrightarrow> \<not> isl (initialize A allowed caller payer ns s))"
  by (auto simp: initialize_def Let_def split: if_splits)

theorem initialize_requires_payer_or_allowed_witness:
  "initialize sample_addressing [OGAL_PROGRAM_ID] (PublicKey [6]) sample_key (PublicKey [9])
       (sample_ledger \<lparr> configurations := Map.empty \<rparr>) = Inl UnauthorizedDeployer
   \<and> \<not> isl (initialize sample_addressing [OGAL_PROGRAM_ID] sample_key sample_key (PublicKey [9])
       (sample_ledger \<lparr> configurations := Map.empty \<rparr>))
   \<and> \<not> isl (initialize sample_addressing [OGAL_PROGRAM_ID] OGAL_PROGRAM_ID sample_key (PublicKey [9])
       (sample_ledger \<lparr> configurations := Map.empty \<rparr>))"
proof -
  have a: "PublicKey [6] \<noteq> sample_key \<and> PublicKey [6] \<notin> set [OGAL_PROGRAM_ID]"
    by (simp add: sample_key_def OGAL_PROGRAM_ID_def)
  have b: "configurations (sample_ledger \<lparr> configurations := Map.empty \<rparr>)
             (config_address sample_addressing (PublicKey [9])) = None"
    by simp
  show ?thesis
    using initialize_requires_payer_or_allowed [of "PublicKey [6]" sample_key "[OGAL_PROGRAM_ID]"
        sample_addressing "PublicKey [9]" "sample_ledger \<lparr> configurations := Map.empty \<rparr>"]
      initialize_requires_payer_or_allowed [of sample_key sample_key "[OGAL_PROGRAM_ID]"
        sample_addressing "PublicKey [9]" "sample_ledger \<lparr> configurations := Map.empty \<rparr>"]
      initialize_requires_payer_or_allowed [of OGAL_PROGRAM_ID sample_key "[OGAL_PROGRAM_ID]"
        sample_addressing "PublicKey [9]" "sample_ledger \<lparr> configurations := Map.empty \<rparr>"]
      a b
    by simp
qed

end
